theory Spec2Isabelle
  imports Complex_Main "HOL-Library.Log_Nat"
begin

section \<open>Python exceptions as values\<close>

text \<open>
  The notebooks are Python. Every exception a modelled function can raise is a value of
  \<open>py_error\<close>; a function that can raise returns \<open>py_error + 'a\<close>, with \<open>Inl\<close> the
  exception. \<open>KeyError\<close> carries the missing key, \<open>NameError\<close> the unbound name.
\<close>

datatype py_error =
    ZeroDivisionError
  | OverflowError
  | ValueError
  | KeyError string
  | NameError string

section \<open>The trainable-parameter counter\<close>

text \<open>
  The repository holds three notebooks: the full fine-tuning notebook, a draft of the
  QLoRA notebook, and the QLoRA notebook. All three define
  \<^verbatim>\<open>
  def print_trainable_parameters(model):
      trainable_params = 0
      all_param = 0
      for _, param in model.named_parameters():
          all_param += param.numel()
          if param.requires_grad:
              trainable_params += param.numel()
      print(
          f"trainable params: {trainable_params} || all params: {all_param} || trainable%: {100 * trainable_params / all_param:.2f}"
      )
  \<close>
  A parameter is read through \<open>numel()\<close> (a tensor's number of elements, never negative)
  and \<open>requires_grad\<close> only; \<open>named_parameters()\<close> is the finite sequence of
  (name, parameter) pairs of the model.
\<close>

record parameter =
  numel :: nat
  requires_grad :: bool

type_synonym named_parameters = "(string \<times> parameter) list"

text \<open>
  The \<open>for\<close> loop, with its two accumulators passed along. The pair is
  \<open>(trainable_params, all_param)\<close>.
\<close>

fun count_loop :: "named_parameters \<Rightarrow> nat \<times> nat \<Rightarrow> nat \<times> nat" where
  "count_loop [] (trainable_params, all_param) = (trainable_params, all_param)"
| "count_loop ((_, param) # rest) (trainable_params, all_param) =
     count_loop rest
       (if requires_grad param then trainable_params + numel param else trainable_params,
        all_param + numel param)"

text \<open>
  Python's \<open>/\<close> on two integers is true division: \<open>ZeroDivisionError\<close> when the divisor
  is 0, otherwise the float nearest to the exact quotient, ties to the even significand
  (\<open>OverflowError\<close> when that is beyond the floats). A float has 53 significant bits and
  no exponent of its last bit below -1074. Floats are modelled as the rationals they
  denote: \<open>float_exponent n d\<close> is the binary exponent of the quotient \<open>n / d\<close> (from the
  bit lengths of \<open>n\<close> and \<open>d\<close>), and \<open>float_quotient n d\<close> the quotient rounded to a multiple
  of the unit in the last place.
\<close>

definition round_half_even :: "rat \<Rightarrow> int" where
  "round_half_even x =
     (let f = \<lfloor>x\<rfloor>; r = x - of_int f
      in if r < 1 / 2 then f else if 1 / 2 < r then f + 1 else if even f then f else f + 1)"

definition float_exponent :: "nat \<Rightarrow> nat \<Rightarrow> int" where
  "float_exponent n d =
     (let e0 = bitlen (int n) - bitlen (int d)
      in if power_int 2 e0 \<le> (of_nat n / of_nat d :: rat) then e0 else e0 - 1)"

definition float_quotient :: "nat \<Rightarrow> nat \<Rightarrow> rat" where
  "float_quotient n d =
     (if n = 0 then 0
      else (let ulp = power_int 2 (max (float_exponent n d - 52) (- 1074))
            in of_int (round_half_even (of_nat n / of_nat d / ulp)) * ulp))"

definition true_div :: "nat \<Rightarrow> nat \<Rightarrow> py_error + rat" where
  "true_div n d =
     (if d = 0 then Inl ZeroDivisionError
      else if 2 ^ 1024 \<le> float_quotient n d then Inl OverflowError
      else Inr (float_quotient n d))"

text \<open>
  The format \<open>:.2f\<close> prints a float with two digits after the point: the decimal with two
  decimals nearest to the float, ties to the even last digit. \<open>format_2f y\<close> is the number
  the printed digits denote (\<open>3333 / 100\<close> for the text \<open>33.33\<close>).
\<close>

definition format_2f :: "rat \<Rightarrow> rat" where
  "format_2f y = of_int (round_half_even (y * 100)) / 100"

text \<open>
  The printed line, as the three numbers its f-string interpolates: the two counts as
  they are, the percentage as \<open>:.2f\<close> prints it. Standard output is the list of lines
  printed so far. The f-string is evaluated before \<open>print\<close> is called, so nothing is
  printed when the division raises.
\<close>

record report_line =
  shown_trainable_params :: nat
  shown_all_param :: nat
  shown_trainable_pct :: rat

definition print_trainable_parameters ::
    "named_parameters \<Rightarrow> report_line list \<Rightarrow> py_error + report_line list" where
  "print_trainable_parameters model stdout =
     (case count_loop model (0, 0) of
        (trainable_params, all_param) \<Rightarrow>
          (case true_div (100 * trainable_params) all_param of
             Inl e \<Rightarrow> Inl e
           | Inr pct \<Rightarrow>
               Inr (stdout @
                 [\<lparr>shown_trainable_params = trainable_params,
                   shown_all_param = all_param,
                   shown_trainable_pct = format_2f pct\<rparr>])))"

text \<open>The two sums the claims speak of, written without the loop.\<close>

definition total_numel :: "named_parameters \<Rightarrow> nat" where
  "total_numel model = sum_list (map (\<lambda>np. numel (snd np)) model)"

definition trainable_numel :: "named_parameters \<Rightarrow> nat" where
  "trainable_numel model =
     sum_list (map (\<lambda>np. numel (snd np)) (filter (\<lambda>np. requires_grad (snd np)) model))"

section \<open>The accuracy callback\<close>

text \<open>
  The full fine-tuning notebook and the QLoRA notebook define
  \<^verbatim>\<open>
  def compute_metrics(p):
      logits, labels = p.predictions, p.label_ids
      preds = logits.argmax(axis=-1)
      acc = accuracy_score(labels, preds)
      wandb.log({"accuracy": acc})
      return {"accuracy": acc}
  \<close>
  and the earlier QLoRA draft defines the same function without the \<open>wandb.log\<close> line.
  \<open>p\<close> is the training library's \<open>EvalPrediction\<close>: \<open>predictions\<close> is a two-dimensional
  array, one row of logits per example, and \<open>label_ids\<close> the vector of integer labels.
  Logits are modelled over any linear order (no NaN among them).
\<close>

record 'a eval_prediction =
  predictions :: "'a list list"
  label_ids :: "int list"

text \<open>
  \<open>ndarray.argmax(axis=-1)\<close> of the array library: for each row the index of its maximum,
  the first one when the maximum occurs several times; an empty row has no argmax
  (\<open>ValueError\<close>). The scan keeps the best value seen, its index, and the current index.
\<close>

fun argmax_scan :: "'a::linorder \<Rightarrow> nat \<Rightarrow> nat \<Rightarrow> 'a list \<Rightarrow> nat" where
  "argmax_scan best best_i i [] = best_i"
| "argmax_scan best best_i i (x # xs) =
     (if best < x then argmax_scan x i (Suc i) xs else argmax_scan best best_i (Suc i) xs)"

definition argmax_row :: "'a::linorder list \<Rightarrow> py_error + nat" where
  "argmax_row row = (case row of [] \<Rightarrow> Inl ValueError | x # xs \<Rightarrow> Inr (argmax_scan x 0 1 xs))"

fun argmax_last_axis :: "'a::linorder list list \<Rightarrow> py_error + nat list" where
  "argmax_last_axis [] = Inr []"
| "argmax_last_axis (row # rows) =
     (case argmax_row row of
        Inl e \<Rightarrow> Inl e
      | Inr j \<Rightarrow> (case argmax_last_axis rows of Inl e \<Rightarrow> Inl e | Inr js \<Rightarrow> Inr (j # js)))"

text \<open>
  \<open>accuracy_score(y_true, y_pred)\<close> of the metrics library, with its default
  \<open>normalize=True\<close>: vectors of different lengths are refused (\<open>ValueError\<close>); otherwise
  the result is the mean of the vector \<open>y_true == y_pred\<close>. The mean of an empty vector
  is the float \<open>nan\<close> (0/0); any other mean is kept as the exact quotient, the rounding
  to a float being outside the model.
\<close>

datatype np_float = NaN | Finite rat

definition np_mean :: "bool list \<Rightarrow> np_float" where
  "np_mean score =
     (if score = [] then NaN
      else Finite (of_nat (length (filter (\<lambda>b. b) score)) / of_nat (length score)))"

definition accuracy_score :: "int list \<Rightarrow> int list \<Rightarrow> py_error + np_float" where
  "accuracy_score y_true y_pred =
     (if length y_true \<noteq> length y_pred then Inl ValueError
      else Inr (np_mean (map (\<lambda>(t, q). t = q) (zip y_true y_pred))))"

text \<open>
  The callback. A metrics dictionary is a map from metric names to values; the experiment
  tracker's state is the list of dictionaries logged so far, and \<open>wandb.log\<close> appends to it.
\<close>

type_synonym metrics = "string \<rightharpoonup> np_float"

definition compute_metrics ::
    "'a::linorder eval_prediction \<Rightarrow> metrics list \<Rightarrow> py_error + metrics \<times> metrics list" where
  "compute_metrics p wandb_log =
     (let logits = predictions p; labels = label_ids p in
      case argmax_last_axis logits of
        Inl e \<Rightarrow> Inl e
      | Inr preds \<Rightarrow>
          (case accuracy_score labels (map int preds) of
             Inl e \<Rightarrow> Inl e
           | Inr acc \<Rightarrow> Inr ([''accuracy'' \<mapsto> acc], wandb_log @ [[''accuracy'' \<mapsto> acc]])))"

text \<open>The draft's variant: the same computation, nothing logged.\<close>

definition compute_metrics_draft :: "'a::linorder eval_prediction \<Rightarrow> py_error + metrics" where
  "compute_metrics_draft p =
     (let logits = predictions p; labels = label_ids p in
      case argmax_last_axis logits of
        Inl e \<Rightarrow> Inl e
      | Inr preds \<Rightarrow>
          (case accuracy_score labels (map int preds) of
             Inl e \<Rightarrow> Inl e
           | Inr acc \<Rightarrow> Inr [''accuracy'' \<mapsto> acc]))"

text \<open>
  What the claim about the callback speaks of, written without the scan: \<open>j\<close> is the
  argmax of a row when it is the first index that holds the row's maximum; a matrix of
  logits has one column per class, at least one; a position is correct when the argmax of
  its row is its label.
\<close>

definition is_argmax :: "'a::linorder list \<Rightarrow> nat \<Rightarrow> bool" where
  "is_argmax row j \<longleftrightarrow>
     j < length row \<and> (\<forall>k < length row. row ! k \<le> row ! j) \<and> (\<forall>k < j. row ! k < row ! j)"

definition logits_matrix :: "'a list list \<Rightarrow> nat \<Rightarrow> bool" where
  "logits_matrix rows n_classes \<longleftrightarrow>
     0 < n_classes \<and> (\<forall>row \<in> set rows. length row = n_classes)"

definition correct_positions :: "'a::linorder eval_prediction \<Rightarrow> nat set" where
  "correct_positions p =
     {i. i < length (label_ids p) \<and>
         (\<exists>j. is_argmax (predictions p ! i) j \<and> int j = label_ids p ! i)}"

section \<open>The names of the 4-bit linear modules\<close>

text \<open>
  The QLoRA notebook defines
  \<^verbatim>\<open>
  def find_all_linear_names(model):
      cls = bnb.nn.Linear4bit
      lora_module_names = set()
      for name, module in model.named_modules():
          if isinstance(module, cls):
              names = name.split('.')
              lora_module_names.add(names[0] if len(names) == 1 else names[-1])

      if 'lm_head' in lora_module_names:  # needed for 16-bit
          lora_module_names.remove('lm_head')
      return list(lora_module_names)
  \<close>
  Of a module the function reads only whether it is an instance of the 4-bit linear
  class; \<open>named_modules()\<close> is the finite sequence of (dotted name, module) pairs.
\<close>

datatype nn_module = Linear4bit | Other_module

type_synonym named_modules = "(string \<times> nn_module) list"

text \<open>
  \<open>str.split(sep)\<close> with a one-character separator: the pieces between the separators,
  empty pieces included; the result is never the empty list.
\<close>

fun str_split :: "char \<Rightarrow> string \<Rightarrow> string list" where
  "str_split sep [] = [[]]"
| "str_split sep (c # cs) =
     (if c = sep then [] # str_split sep cs
      else (case str_split sep cs of
              [] \<Rightarrow> [[c]]
            | w # ws \<Rightarrow> (c # w) # ws))"

text \<open>
  A Python set is kept as a list without repetitions, in order of insertion. Python
  leaves the order in which \<open>list(s)\<close> enumerates a set unspecified, so only what does not
  depend on the order is proved of the result. \<open>set.remove\<close> raises \<open>KeyError\<close> on an
  absent element.
\<close>

type_synonym 'a py_set = "'a list"

definition set_add :: "'a \<Rightarrow> 'a py_set \<Rightarrow> 'a py_set" where
  "set_add x s = (if x \<in> set s then s else s @ [x])"

definition set_remove :: "string \<Rightarrow> string py_set \<Rightarrow> py_error + string py_set" where
  "set_remove x s = (if x \<in> set s then Inr (removeAll x s) else Inl (KeyError x))"

fun collect_names :: "named_modules \<Rightarrow> string py_set \<Rightarrow> string py_set" where
  "collect_names [] lora_module_names = lora_module_names"
| "collect_names ((name, m) # rest) lora_module_names =
     collect_names rest
       (if m = Linear4bit then
          (let names = str_split CHR ''.'' name
           in set_add (if length names = 1 then hd names else last names) lora_module_names)
        else lora_module_names)"

definition find_all_linear_names :: "named_modules \<Rightarrow> py_error + string list" where
  "find_all_linear_names model =
     (let lora_module_names = collect_names model [] in
      if ''lm_head'' \<in> set lora_module_names
      then set_remove ''lm_head'' lora_module_names
      else Inr lora_module_names)"

text \<open>
  The last dot-separated component of a name, written without \<open>split\<close>: what follows the
  last dot, or the whole name when it has no dot.
\<close>

definition base_name :: "string \<Rightarrow> string" where
  "base_name name = rev (takeWhile (\<lambda>c. c \<noteq> CHR ''.'') (rev name))"

section \<open>The notebooks as straight-line scripts\<close>

text \<open>
  Apart from the three functions above, the notebooks are straight-line code: imports,
  assignments and calls into the libraries, one cell after the other. What the libraries
  do inside a call is not part of the repository. A value is therefore either a literal
  (a float literal is kept as it is written), an imported library object (\<open>LibV\<close>, with
  its qualified name), a function the notebook defines (\<open>FunV\<close>), an attribute or an item
  of a value, or the result of a call (\<open>RetV\<close>), known by the position of that call among
  the calls made so far.
\<close>

datatype pyval =
    NoneV
  | BoolV bool
  | IntV int
  | FloatV string
  | StrV string
  | ListV "pyval list"
  | DictV "(pyval \<times> pyval) list"
  | LibV string
  | FunV string
  | AttrV pyval string
  | ItemV pyval pyval
  | RetV nat

record py_call =
  callee :: pyval
  call_args :: "pyval list"
  call_kwargs :: "(string \<times> pyval) list"

text \<open>
  The state of the Python kernel that runs a notebook: the global namespace, and the
  calls made so far, in order. What a call into a library raises, if anything, is a
  parameter of the run: a function of the calls made before and of the call.
\<close>

record kernel =
  namespace :: "string \<rightharpoonup> pyval"
  calls :: "py_call list"

type_synonym raises = "py_call list \<Rightarrow> py_call \<Rightarrow> py_error option"

type_synonym expr = "kernel \<Rightarrow> py_error + pyval \<times> kernel"

type_synonym stmt = "kernel \<Rightarrow> py_error + kernel"

definition lit :: "pyval \<Rightarrow> expr" where
  "lit v k = Inr (v, k)"

text \<open>Reading a name that is not bound raises \<open>NameError\<close>.\<close>

definition var :: "string \<Rightarrow> expr" where
  "var x k = (case namespace k x of None \<Rightarrow> Inl (NameError x) | Some v \<Rightarrow> Inr (v, k))"

definition attr :: "expr \<Rightarrow> string \<Rightarrow> expr" where
  "attr e a k = (case e k of Inl err \<Rightarrow> Inl err | Inr (v, k') \<Rightarrow> Inr (AttrV v a, k'))"

definition item :: "expr \<Rightarrow> expr \<Rightarrow> expr" where
  "item e i k =
     (case e k of
        Inl err \<Rightarrow> Inl err
      | Inr (v, k') \<Rightarrow>
          (case i k' of Inl err \<Rightarrow> Inl err | Inr (j, k'') \<Rightarrow> Inr (ItemV v j, k'')))"

fun eval_list :: "expr list \<Rightarrow> kernel \<Rightarrow> py_error + pyval list \<times> kernel" where
  "eval_list [] k = Inr ([], k)"
| "eval_list (e # es) k =
     (case e k of
        Inl err \<Rightarrow> Inl err
      | Inr (v, k') \<Rightarrow>
          (case eval_list es k' of Inl err \<Rightarrow> Inl err | Inr (vs, k'') \<Rightarrow> Inr (v # vs, k'')))"

definition list_of :: "expr list \<Rightarrow> expr" where
  "list_of es k =
     (case eval_list es k of Inl err \<Rightarrow> Inl err | Inr (vs, k') \<Rightarrow> Inr (ListV vs, k'))"

text \<open>
  A call evaluates the callee, then the positional arguments, then the keyword arguments,
  left to right. If the call raises, the exception is the outcome; otherwise the call is
  added to the calls made and its result is known by its position there.
\<close>

definition call :: "raises \<Rightarrow> expr \<Rightarrow> expr list \<Rightarrow> (string \<times> expr) list \<Rightarrow> expr" where
  "call lib f args kwargs k =
     (case f k of
        Inl err \<Rightarrow> Inl err
      | Inr (fv, k1) \<Rightarrow>
          (case eval_list args k1 of
             Inl err \<Rightarrow> Inl err
           | Inr (vs, k2) \<Rightarrow>
               (case eval_list (map snd kwargs) k2 of
                  Inl err \<Rightarrow> Inl err
                | Inr (kvs, k3) \<Rightarrow>
                    (let c = \<lparr>callee = fv, call_args = vs,
                                call_kwargs = zip (map fst kwargs) kvs\<rparr>
                     in case lib (calls k3) c of
                          Some err \<Rightarrow> Inl err
                        | None \<Rightarrow>
                            Inr (RetV (length (calls k3)), k3\<lparr>calls := calls k3 @ [c]\<rparr>)))))"

definition assign :: "string \<Rightarrow> expr \<Rightarrow> stmt" where
  "assign x e k =
     (case e k of
        Inl err \<Rightarrow> Inl err
      | Inr (v, k') \<Rightarrow> Inr (k'\<lparr>namespace := (namespace k')(x \<mapsto> v)\<rparr>))"

definition do_expr :: "expr \<Rightarrow> stmt" where
  "do_expr e k = (case e k of Inl err \<Rightarrow> Inl err | Inr (v, k') \<Rightarrow> Inr k')"

text \<open>
  \<open>import_as lib_name x\<close> binds \<open>x\<close> to the library object \<open>lib_name\<close>
  (\<open>from m import x\<close> is \<open>import_as m.x x\<close>); \<open>def_function f\<close> binds \<open>f\<close> to the
  function of that name defined in the cell.
\<close>

definition import_as :: "string \<Rightarrow> string \<Rightarrow> stmt" where
  "import_as lib_name x k = Inr (k\<lparr>namespace := (namespace k)(x \<mapsto> LibV lib_name)\<rparr>)"

definition def_function :: "string \<Rightarrow> stmt" where
  "def_function f k = Inr (k\<lparr>namespace := (namespace k)(f \<mapsto> FunV f)\<rparr>)"

text \<open>
  Statements run in order; the first exception ends the run and is its outcome (there is
  no \<open>try\<close> in any cell). A notebook is the list of its code cells, run from a fresh
  kernel.
\<close>

fun run :: "stmt list \<Rightarrow> kernel \<Rightarrow> py_error + kernel" where
  "run [] k = Inr k"
| "run (s # ss) k = (case s k of Inl err \<Rightarrow> Inl err | Inr k' \<Rightarrow> run ss k')"

definition fresh_kernel :: kernel where
  "fresh_kernel = \<lparr>namespace = Map.empty, calls = []\<rparr>"

definition run_notebook :: "stmt list list \<Rightarrow> py_error + kernel" where
  "run_notebook cells = run (concat cells) fresh_kernel"

text \<open>The run in which every call returns.\<close>

definition never :: raises where
  "never trace c = None"

subsection \<open>The full fine-tuning notebook\<close>

definition bert_notebook :: "raises \<Rightarrow> stmt list list" where
  "bert_notebook lib =
    [ [import_as ''argparse'' ''argparse'',
       import_as ''wandb'' ''wandb'',
       import_as ''sklearn.metrics.accuracy_score'' ''accuracy_score'',
       import_as ''datasets.load_from_disk'' ''load_from_disk'',
       import_as ''transformers.BertForSequenceClassification'' ''BertForSequenceClassification'',
       import_as ''transformers.Trainer'' ''Trainer'',
       import_as ''transformers.TrainingArguments'' ''TrainingArguments'',
       import_as ''transformers.EarlyStoppingCallback'' ''EarlyStoppingCallback''],
      [do_expr (call lib (attr (var ''wandb'') ''init'') []
         [(''project'', lit (StrV ''driver-intent-classification'')),
          (''name'', lit (StrV ''bert-run''))])],
      [assign ''path_to_retrieve'' (lit (StrV ''../tokenized_dataset'')),
       assign ''dataset_dict'' (call lib (var ''load_from_disk'') [var ''path_to_retrieve''] []),
       assign ''model_name'' (lit (StrV ''bert-base-uncased'')),
       assign ''model''
         (call lib (attr (var ''BertForSequenceClassification'') ''from_pretrained'')
            [var ''model_name''] [(''num_labels'', lit (IntV 5))])],
      [def_function ''print_trainable_parameters'',
       do_expr (call lib (var ''print_trainable_parameters'') [var ''model''] [])],
      [def_function ''compute_metrics''],
      [assign ''early_stopping_callback''
         (call lib (var ''EarlyStoppingCallback'') []
            [(''early_stopping_patience'', lit (IntV 2))])],
      [assign ''training_args''
         (call lib (var ''TrainingArguments'') []
            [(''per_device_train_batch_size'', lit (IntV 8)),
             (''per_device_eval_batch_size'', lit (IntV 8)),
             (''output_dir'', lit (StrV ''../bert-models'')),
             (''num_train_epochs'', lit (IntV 10)),
             (''evaluation_strategy'', lit (StrV ''steps'')),
             (''save_steps'', lit (IntV 10)),
             (''save_total_limit'', lit (IntV 4)),
             (''remove_unused_columns'', lit (BoolV False)),
             (''run_name'', lit (StrV ''run_name'')),
             (''logging_dir'', lit (StrV ''/logs'')),
             (''logging_steps'', lit (IntV 10)),
             (''load_best_model_at_end'', lit (BoolV True)),
             (''report_to'', lit (StrV ''wandb'')),
             (''learning_rate'', lit (FloatV ''3e-5'')),
             (''metric_for_best_model'', lit (StrV ''accuracy''))]),
       assign ''trainer''
         (call lib (var ''Trainer'') []
            [(''model'', var ''model''),
             (''args'', var ''training_args''),
             (''train_dataset'', item (var ''dataset_dict'') (lit (StrV ''train''))),
             (''eval_dataset'', item (var ''dataset_dict'') (lit (StrV ''test''))),
             (''compute_metrics'', var ''compute_metrics''),
             (''callbacks'', list_of [var ''early_stopping_callback''])])],
      [do_expr (call lib (attr (var ''trainer'') ''train'') [] [])],
      [assign ''model_path'' (lit (StrV ''../bert-models/best_model'')),
       do_expr (call lib (attr (var ''model'') ''save_pretrained'') [var ''model_path''] [])] ]"

subsection \<open>The QLoRA draft notebook\<close>

text \<open>
  The first of the two QLoRA notebooks: an earlier draft, whose recorded run ends in the
  \<open>KeyError\<close> of its last executed cell. Its code cells, in the order of the file.
\<close>

definition qlora_draft_notebook :: "raises \<Rightarrow> stmt list list" where
  "qlora_draft_notebook lib =
    [ [import_as ''pandas'' ''pd'',
       import_as ''torch'' ''torch'',
       import_as ''transformers.BertTokenizer'' ''BertTokenizer'',
       import_as ''transformers.BertForSequenceClassification'' ''BertForSequenceClassification'',
       import_as ''datasets.DatasetDict'' ''DatasetDict'',
       import_as ''datasets.Dataset'' ''Dataset'',
       import_as ''datasets.load_from_disk'' ''load_from_disk'',
       import_as ''sklearn.model_selection.train_test_split'' ''train_test_split'',
       import_as ''transformers.BertForSequenceClassification'' ''BertForSequenceClassification'',
       import_as ''transformers.Trainer'' ''Trainer'',
       import_as ''transformers.TrainingArguments'' ''TrainingArguments'',
       import_as ''sklearn.metrics.accuracy_score'' ''accuracy_score'',
       import_as ''sklearn.preprocessing.LabelEncoder'' ''LabelEncoder'',
       import_as ''transformers.BitsAndBytesConfig'' ''BitsAndBytesConfig'',
       import_as ''accelerate.Accelerator'' ''Accelerator'',
       import_as ''peft.prepare_model_for_kbit_training'' ''prepare_model_for_kbit_training'',
       import_as ''peft.LoraConfig'' ''LoraConfig'',
       import_as ''peft.TaskType'' ''TaskType'',
       import_as ''peft.get_peft_model'' ''get_peft_model''],
      [assign ''path_to_retrieve'' (lit (StrV ''../tokenized_dataset''))],
      [assign ''dataset_dict'' (call lib (var ''load_from_disk'') [var ''path_to_retrieve''] [])],
      [],
      [assign ''bnb_config''
         (call lib (var ''BitsAndBytesConfig'') []
            [(''load_in_4bit'', lit (BoolV True)),
             (''bnb_4bit_use_double_quant'', lit (BoolV False)),
             (''bnb_4bit_quant_type'', lit (StrV ''nf4'')),
             (''bnb_4bit_compute_dtype'', attr (var ''torch'') ''bfloat16'')])],
      [def_function ''print_trainable_parameters''],
      [assign ''model_name'' (lit (StrV ''bert-large-uncased''))],
      [assign ''model''
         (call lib (attr (var ''BertForSequenceClassification'') ''from_pretrained'')
            [var ''model_name'']
            [(''num_labels'', lit (IntV 5)),
             (''quantization_config'', var ''bnb_config'')])],
      [do_expr (call lib (var ''print_trainable_parameters'') [var ''model''] [])],
      [assign ''target_modules''
         (list_of [lit (StrV ''q_proj''), lit (StrV ''k_proj''), lit (StrV ''v_proj''),
                   lit (StrV ''o_proj''), lit (StrV ''gate_proj''), lit (StrV ''down_proj''),
                   lit (StrV ''up_proj''), lit (StrV ''lm_head'')])],
      [assign ''peft_config''
         (call lib (var ''LoraConfig'') []
            [(''task_type'', attr (var ''TaskType'') ''SEQ_CLS''),
             (''r'', lit (IntV 8)),
             (''lora_alpha'', lit (IntV 32)),
             (''lora_dropout'', lit (FloatV ''0.1'')),
             (''target_modules'', list_of [lit (StrV ''query''), lit (StrV ''value'')])])],
      [assign ''peft_config''
         (call lib (var ''LoraConfig'') []
            [(''r'', lit (IntV 16)),
             (''lora_alpha'', lit (IntV 16)),
             (''target_modules'', list_of [lit (StrV ''query''), lit (StrV ''value'')]),
             (''lora_dropout'', lit (FloatV ''0.1'')),
             (''bias'', lit (StrV ''none'')),
             (''modules_to_save'', list_of [lit (StrV ''classifier'')])])],
      [assign ''model'' (call lib (var ''get_peft_model'') [var ''model'', var ''peft_config''] []),
       do_expr (call lib (var ''print_trainable_parameters'') [var ''model''] [])],
      [def_function ''compute_metrics''],
      [assign ''training_args''
         (call lib (var ''TrainingArguments'') []
            [(''per_device_train_batch_size'', lit (IntV 8)),
             (''per_device_eval_batch_size'', lit (IntV 8)),
             (''output_dir'', lit (StrV ''/results'')),
             (''num_train_epochs'', lit (IntV 1)),
             (''evaluation_strategy'', lit (StrV ''steps'')),
             (''save_steps'', lit (IntV 10)),
             (''save_total_limit'', lit (IntV 2)),
             (''remove_unused_columns'', lit (BoolV False)),
             (''run_name'', lit (StrV ''run_name'')),
             (''logging_dir'', lit (StrV ''/logs'')),
             (''logging_steps'', lit (IntV 10)),
             (''load_best_model_at_end'', lit (BoolV True))])],
      [assign ''trainer''
         (call lib (var ''Trainer'') []
            [(''model'', var ''model''),
             (''args'', var ''training_args''),
             (''train_dataset'', item (var ''dataset_dict'') (lit (StrV ''train''))),
             (''eval_dataset'', item (var ''dataset_dict'') (lit (StrV ''test''))),
             (''compute_metrics'', var ''compute_metrics'')])],
      [do_expr (call lib (attr (var ''trainer'') ''train'') [] [])],
      [] ]"

subsection \<open>The QLoRA notebook\<close>

definition qlora_notebook :: "raises \<Rightarrow> stmt list list" where
  "qlora_notebook lib =
    [ [],
      [import_as ''argparse'' ''argparse'',
       import_as ''torch'' ''torch'',
       import_as ''wandb'' ''wandb'',
       import_as ''bitsandbytes'' ''bnb'',
       import_as ''sklearn.metrics.accuracy_score'' ''accuracy_score'',
       import_as ''sklearn.preprocessing.LabelEncoder'' ''LabelEncoder'',
       import_as ''datasets.load_from_disk'' ''load_from_disk'',
       import_as ''peft.prepare_model_for_kbit_training'' ''prepare_model_for_kbit_training'',
       import_as ''peft.LoraConfig'' ''LoraConfig'',
       import_as ''peft.TaskType'' ''TaskType'',
       import_as ''peft.get_peft_model'' ''get_peft_model'',
       import_as ''transformers.Trainer'' ''Trainer'',
       import_as ''transformers.TrainingArguments'' ''TrainingArguments'',
       import_as ''transformers.AutoModelForSequenceClassification''
         ''AutoModelForSequenceClassification'',
       import_as ''transformers.BitsAndBytesConfig'' ''BitsAndBytesConfig'',
       import_as ''transformers.EarlyStoppingCallback'' ''EarlyStoppingCallback''],
      [do_expr (call lib (attr (var ''wandb'') ''init'') []
         [(''project'', lit (StrV ''driver-intent-classification'')),
          (''name'', lit (StrV ''qlora-run''))])],
      [assign ''path_to_retrieve'' (lit (StrV ''../tokenized_dataset'')),
       assign ''dataset_dict'' (call lib (var ''load_from_disk'') [var ''path_to_retrieve''] [])],
      [def_function ''print_trainable_parameters''],
      [assign ''model_id'' (lit (StrV ''bert-large-uncased'')),
       assign ''num_labels'' (lit (IntV 5)),
       assign ''bnb_config''
         (call lib (var ''BitsAndBytesConfig'') []
            [(''load_in_4bit'', lit (BoolV True)),
             (''bnb_4bit_use_double_quant'', lit (BoolV True)),
             (''bnb_4bit_quant_type'', lit (StrV ''nf4'')),
             (''bnb_4bit_compute_dtype'', attr (var ''torch'') ''bfloat16'')]),
       assign ''model''
         (call lib (attr (var ''AutoModelForSequenceClassification'') ''from_pretrained'')
            [var ''model_id'']
            [(''num_labels'', lit (IntV 5)),
             (''quantization_config'', var ''bnb_config''),
             (''device_map'', lit (DictV [(StrV '''', IntV 0)]))]),
       do_expr (call lib (var ''print_trainable_parameters'') [var ''model''] [])],
      [do_expr (call lib (attr (var ''model'') ''gradient_checkpointing_enable'') [] []),
       assign ''model'' (call lib (var ''prepare_model_for_kbit_training'') [var ''model''] []),
       def_function ''find_all_linear_names'',
       assign ''modules'' (call lib (var ''find_all_linear_names'') [var ''model''] []),
       assign ''config''
         (call lib (var ''LoraConfig'') []
            [(''r'', lit (IntV 32)),
             (''lora_alpha'', lit (IntV 64)),
             (''lora_dropout'', lit (FloatV ''0.1'')),
             (''bias'', lit (StrV ''all'')),
             (''task_type'', attr (var ''TaskType'') ''SEQ_CLS''),
             (''target_modules'', var ''modules''),
             (''modules_to_save'', list_of [lit (StrV ''decode_head'')])]),
       assign ''peft_config''
         (call lib (var ''LoraConfig'') []
            [(''task_type'', attr (var ''TaskType'') ''SEQ_CLS''),
             (''inference_mode'', lit (BoolV False)),
             (''r'', lit (IntV 12)),
             (''lora_alpha'', lit (IntV 32)),
             (''lora_dropout'', lit (FloatV ''0.1''))]),
       assign ''model'' (call lib (var ''get_peft_model'') [var ''model'', var ''peft_config''] []),
       do_expr (call lib (attr (var ''model'') ''print_trainable_parameters'') [] [])],
      [def_function ''compute_metrics''],
      [assign ''early_stopping_callback''
         (call lib (var ''EarlyStoppingCallback'') []
            [(''early_stopping_patience'', lit (IntV 2))])],
      [assign ''training_args''
         (call lib (var ''TrainingArguments'') []
            [(''per_device_train_batch_size'', lit (IntV 8)),
             (''per_device_eval_batch_size'', lit (IntV 8)),
             (''gradient_accumulation_steps'', lit (IntV 8)),
             (''output_dir'', lit (StrV ''../qlora-models'')),
             (''num_train_epochs'', lit (IntV 8)),
             (''evaluation_strategy'', lit (StrV ''steps'')),
             (''save_steps'', lit (IntV 10)),
             (''save_total_limit'', lit (IntV 5)),
             (''remove_unused_columns'', lit (BoolV False)),
             (''run_name'', lit (StrV ''run_name'')),
             (''logging_dir'', lit (StrV ''/logs'')),
             (''logging_steps'', lit (IntV 10)),
             (''load_best_model_at_end'', lit (BoolV True)),
             (''learning_rate'', lit (FloatV ''5e-4'')),
             (''optim'', lit (StrV ''paged_adamw_8bit'')),
             (''report_to'', lit (StrV ''wandb'')),
             (''metric_for_best_model'', lit (StrV ''accuracy''))]),
       assign ''trainer''
         (call lib (var ''Trainer'') []
            [(''model'', var ''model''),
             (''args'', var ''training_args''),
             (''train_dataset'', item (var ''dataset_dict'') (lit (StrV ''train''))),
             (''eval_dataset'', item (var ''dataset_dict'') (lit (StrV ''test''))),
             (''compute_metrics'', var ''compute_metrics''),
             (''callbacks'', list_of [var ''early_stopping_callback''])]),
       do_expr (call lib (attr (var ''trainer'') ''train'') [] [])],
      [assign ''model_path'' (lit (StrV ''../qlora-models/best_model'')),
       do_expr (call lib (attr (var ''model'') ''save_pretrained'') [var ''model_path''] [])] ]"

subsection \<open>Reading a run\<close>

text \<open>
  A keyword argument of a call; \<open>result_of\<close> follows a value that is the result of an
  earlier call to that call.
\<close>

definition kwarg :: "py_call \<Rightarrow> string \<Rightarrow> pyval option" where
  "kwarg c x = map_of (call_kwargs c) x"

definition result_of :: "py_call list \<Rightarrow> pyval option \<Rightarrow> py_call option" where
  "result_of tr v =
     (case v of Some (RetV i) \<Rightarrow> (if i < length tr then Some (tr ! i) else None) | _ \<Rightarrow> None)"

text \<open>
  The six steps of the pipeline, recognised by the callee: \<open>load_from_disk\<close>,
  \<open>from_pretrained\<close> of a model class, \<open>get_peft_model\<close>, the \<open>Trainer\<close>
  constructor, \<open>train\<close> and \<open>save_pretrained\<close>. The other calls (configuration objects,
  the experiment tracker, the parameter counter) are no step of their own.
\<close>

datatype pipeline_step = Load | Instantiate | Wrap | Construct | Train | Persist

definition step_of :: "py_call \<Rightarrow> pipeline_step option" where
  "step_of c =
     (case callee c of
        LibV f \<Rightarrow>
          (if f = ''datasets.load_from_disk'' then Some Load
           else if f = ''peft.get_peft_model'' then Some Wrap
           else if f = ''transformers.Trainer'' then Some Construct
           else None)
      | AttrV v a \<Rightarrow>
          (if a = ''from_pretrained'' then Some Instantiate
           else if a = ''train'' then Some Train
           else if a = ''save_pretrained'' then Some Persist
           else None)
      | _ \<Rightarrow> None)"

definition calls_of_step :: "pipeline_step \<Rightarrow> py_call list \<Rightarrow> py_call list" where
  "calls_of_step s tr = filter (\<lambda>c. step_of c = Some s) tr"













definition instantiated_num_labels :: "stmt list list \<Rightarrow> py_error + pyval option list" where
  "instantiated_num_labels cells =
     (case run_notebook cells of
        Inl e \<Rightarrow> Inl e
      | Inr k \<Rightarrow> Inr (map (\<lambda>c. kwarg c ''num_labels'') (calls_of_step Instantiate (calls k))))"








text \<open>The outcome of a run, the final kernel forgotten.\<close>

definition outcome :: "py_error + kernel \<Rightarrow> py_error + unit" where
  "outcome r = (case r of Inl e \<Rightarrow> Inl e | Inr k \<Rightarrow> Inr ())"

text \<open>The class labels of a classifier with \<open>n\<close> output classes.\<close>

definition class_labels :: "int \<Rightarrow> int set" where
  "class_labels n = {0..<n}"

section \<open>The training library, as far as the draft's traceback shows it\<close>

text \<open>
  The recorded run of the draft ends in \<open>KeyError: 'eval_loss'\<close>, and the traceback kept
  in the notebook shows the frames it went through:
  \<^verbatim>\<open>
  Cell In[15], line 1
  ----> 1 trainer.train()
  trainer.py:1556, in Trainer.train
  -> 1556     return inner_training_loop(args=args, ...)
  trainer.py:1930, in Trainer._inner_training_loop
  -> 1930     self._maybe_log_save_evaluate(tr_loss, model, trial, epoch, ignore_keys_for_eval)
  trainer.py:2268, in Trainer._maybe_log_save_evaluate
     2267 if self.control.should_save:
  -> 2268     self._save_checkpoint(model, trial, metrics=metrics)
  trainer.py:2387, in Trainer._save_checkpoint
     2385 if not metric_to_check.startswith("eval_"):
     2386     metric_to_check = f"eval_{metric_to_check}"
  -> 2387 metric_value = metrics[metric_to_check]
  \<close>
  These frames are modelled, and nothing else of the library. Of the training arguments
  they read two: \<open>load_best_model_at_end\<close> (off unless it is set) and
  \<open>metric_for_best_model\<close>. As the library documents it, an absent
  \<open>metric_for_best_model\<close> becomes \<open>loss\<close> when \<open>load_best_model_at_end\<close> is set (the
  key of the recorded error, \<open>eval_loss\<close>, is this default with the prefix of line 2386),
  and the metric is looked up only when there are evaluation results and a metric to look
  for.
\<close>

record training_arguments =
  load_best_model_at_end :: bool
  metric_for_best_model :: "string option"

definition post_init :: "training_arguments \<Rightarrow> training_arguments" where
  "post_init args =
     (if load_best_model_at_end args \<and> metric_for_best_model args = None
      then args\<lparr>metric_for_best_model := Some ''loss''\<rparr>
      else args)"

definition training_arguments_of :: "(string \<times> pyval) list \<Rightarrow> training_arguments" where
  "training_arguments_of kwargs =
     post_init
       \<lparr>load_best_model_at_end = (map_of kwargs ''load_best_model_at_end'' = Some (BoolV True)),
        metric_for_best_model =
          (case map_of kwargs ''metric_for_best_model'' of Some (StrV m) \<Rightarrow> Some m | _ \<Rightarrow> None)\<rparr>"

definition startswith :: "string \<Rightarrow> string \<Rightarrow> bool" where
  "startswith s prefix = (take (length prefix) s = prefix)"

definition save_checkpoint :: "training_arguments \<Rightarrow> metrics option \<Rightarrow> py_error + unit" where
  "save_checkpoint args ms =
     (case ms of
        None \<Rightarrow> Inr ()
      | Some metrics \<Rightarrow>
          (case metric_for_best_model args of
             None \<Rightarrow> Inr ()
           | Some m \<Rightarrow>
               (let metric_to_check = (if \<not> startswith m ''eval_'' then ''eval_'' @ m else m)
                in case metrics metric_to_check of
                     None \<Rightarrow> Inl (KeyError metric_to_check)
                   | Some metric_value \<Rightarrow> Inr ())))"

text \<open>
  One step of the training loop, as \<open>_maybe_log_save_evaluate\<close> sees it: the evaluation
  results of the step (\<open>metrics\<close>, \<open>None\<close> at a step without evaluation) and whether a
  checkpoint is saved at the step (\<open>self.control.should_save\<close>).
\<close>

record train_step =
  step_metrics :: "metrics option"
  should_save :: bool

definition maybe_log_save_evaluate :: "training_arguments \<Rightarrow> train_step \<Rightarrow> py_error + unit" where
  "maybe_log_save_evaluate args s =
     (if should_save s then save_checkpoint args (step_metrics s) else Inr ())"

fun inner_training_loop :: "training_arguments \<Rightarrow> train_step list \<Rightarrow> py_error + unit" where
  "inner_training_loop args [] = Inr ()"
| "inner_training_loop args (s # steps) =
     (case maybe_log_save_evaluate args s of
        Inl e \<Rightarrow> Inl e
      | Inr u \<Rightarrow> inner_training_loop args steps)"

definition trainer_train :: "training_arguments \<Rightarrow> train_step list \<Rightarrow> py_error + unit" where
  "trainer_train args steps = inner_training_loop args steps"

text \<open>
  The library as a parameter of a notebook's run: \<open>train\<close> of a \<open>Trainer\<close> raises what
  these frames raise on the training arguments the \<open>Trainer\<close> was constructed with; no
  other call raises.
\<close>

definition library :: "train_step list \<Rightarrow> raises" where
  "library steps tr c =
     (case callee c of
        AttrV (RetV i) a \<Rightarrow>
          (if a = ''train'' then
             (case result_of tr (Some (RetV i)) of
                None \<Rightarrow> None
              | Some t \<Rightarrow>
                  (if callee t = LibV ''transformers.Trainer'' then
                     (case result_of tr (kwarg t ''args'') of
                        None \<Rightarrow> None
                      | Some ta \<Rightarrow>
                          (case trainer_train (training_arguments_of (call_kwargs ta)) steps of
                             Inl e \<Rightarrow> Some e
                           | Inr u \<Rightarrow> None))
                   else None))
           else None)
      | _ \<Rightarrow> None)"

section \<open>Verification: the trainable-parameter counter\<close>

subsection \<open>The loop computes the two sums\<close>

lemma count_loop_acc:
  "count_loop model (t, a) = (t + trainable_numel model, a + total_numel model)"
proof (induction model arbitrary: t a)
  case Nil
  show ?case by (simp add: trainable_numel_def total_numel_def)
next
  case (Cons np rest)
  obtain name param where np: "np = (name, param)" by (cases np)
  show ?case
    unfolding np using Cons.IH
    by (simp add: trainable_numel_def total_numel_def)
qed

lemma count_loop_sums:
  "count_loop model (0, 0) = (trainable_numel model, total_numel model)"
  by (simp add: count_loop_acc)

lemma trainable_le_total: "trainable_numel model \<le> total_numel model"
  unfolding trainable_numel_def total_numel_def
  by (induction model) auto

lemma total_numel_zero_iff:
  "total_numel model = 0 \<longleftrightarrow> (\<forall>np \<in> set model. numel (snd np) = 0)"
  unfolding total_numel_def by (induction model) auto

subsection \<open>The float quotient and its two decimals\<close>

lemma round_half_even_error: "\<bar>of_int (round_half_even x) - x\<bar> \<le> 1 / 2"
proof -
  have "of_int \<lfloor>x\<rfloor> \<le> x" "x < of_int \<lfloor>x\<rfloor> + 1" by linarith+
  then show ?thesis
    unfolding round_half_even_def Let_def by (auto simp: abs_le_iff)
qed

lemma round_half_even_nonneg: "0 \<le> x \<Longrightarrow> 0 \<le> round_half_even x"
  unfolding round_half_even_def Let_def by auto

lemma bitlen_rat_bounds:
  fixes m :: nat
  assumes "0 < m"
  shows "power_int 2 (bitlen (int m) - 1) \<le> (of_nat m :: rat)"
    and "(of_nat m :: rat) < power_int 2 (bitlen (int m))"
proof -
  have pos: "0 < int m" using assms by simp
  from bitlen_bounds[OF pos]
  have lo: "2 ^ nat (bitlen (int m) - 1) \<le> int m" and hi: "int m < 2 ^ nat (bitlen (int m))"
    by auto
  have b1: "1 \<le> bitlen (int m)"
    using pos bitlen_eq_zero_iff[of "int m"] bitlen_nonneg[of "int m"] by linarith
  have "(of_int (2 ^ nat (bitlen (int m) - 1)) :: rat) \<le> of_int (int m)"
    using lo by (simp only: of_int_le_iff)
  then show "power_int 2 (bitlen (int m) - 1) \<le> (of_nat m :: rat)"
    using b1 by (simp add: power_int_def)
  have "(of_int (int m) :: rat) < of_int (2 ^ nat (bitlen (int m)))"
    using hi by (simp only: of_int_less_iff)
  then show "(of_nat m :: rat) < power_int 2 (bitlen (int m))"
    using b1 by (simp add: power_int_def)
qed

lemma float_exponent_bounds:
  fixes n d :: nat
  assumes "0 < n" "0 < d"
  shows "power_int 2 (float_exponent n d) \<le> (of_nat n / of_nat d :: rat)"
    and "(of_nat n / of_nat d :: rat) < power_int 2 (float_exponent n d + 1)"
proof -
  let ?x = "of_nat n / of_nat d :: rat"
  let ?bn = "bitlen (int n)" and ?bd = "bitlen (int d)"
  have dpos: "(0 :: rat) < of_nat d" and npos: "(0 :: rat) < of_nat n" using assms by simp_all
  note bn = bitlen_rat_bounds[OF assms(1)] and bd = bitlen_rat_bounds[OF assms(2)]
  have p: "\<And>k. (0 :: rat) < power_int 2 k" by simp
  have "power_int 2 (?bn - 1) / power_int 2 ?bd < ?x"
    using bn(1) bd(2) dpos p[of "?bn - 1"] by (intro frac_less2) auto
  moreover have "(power_int 2 ((?bn - 1) - ?bd) :: rat) = power_int 2 (?bn - 1) / power_int 2 ?bd"
    by (rule power_int_diff) simp
  moreover have "?bn - 1 - ?bd = ?bn - ?bd - 1" by simp
  ultimately have lo: "power_int 2 (?bn - ?bd - 1) < ?x" by metis
  have "?x < power_int 2 ?bn / power_int 2 (?bd - 1)"
    using bn(2) bd(1) npos p[of "?bd - 1"] by (intro frac_less) auto
  moreover have "(power_int 2 (?bn - (?bd - 1)) :: rat) = power_int 2 ?bn / power_int 2 (?bd - 1)"
    by (rule power_int_diff) simp
  moreover have "?bn - (?bd - 1) = ?bn - ?bd + 1" by simp
  ultimately have hi: "?x < power_int 2 (?bn - ?bd + 1)" by metis
  show "power_int 2 (float_exponent n d) \<le> ?x"
    using lo by (auto simp: float_exponent_def Let_def)
  show "?x < power_int 2 (float_exponent n d + 1)"
    using hi by (auto simp: float_exponent_def Let_def not_le)
qed

lemma float_quotient_nonneg: "0 \<le> float_quotient n d"
  unfolding float_quotient_def Let_def
  by (auto intro!: mult_nonneg_nonneg round_half_even_nonneg divide_nonneg_nonneg)

lemma float_quotient_error:
  fixes n d :: nat
  assumes "0 < d" "n \<le> 100 * d"
  shows "\<bar>float_quotient n d - of_nat n / of_nat d\<bar> \<le> 1 / 2 ^ 47"
proof (cases "n = 0")
  case True
  then show ?thesis by (simp add: float_quotient_def)
next
  case False
  then have n: "0 < n" by simp
  let ?x = "of_nat n / of_nat d :: rat"
  let ?e = "float_exponent n d"
  let ?ulp = "power_int 2 (max (?e - 52) (- 1074)) :: rat"
  have "rat_of_nat n \<le> rat_of_nat (100 * d)" using assms(2) by (simp only: of_nat_le_iff)
  then have x100: "?x \<le> 100" using assms(1) by (simp add: divide_le_eq)
  have e6: "?e \<le> 6"
  proof (rule ccontr)
    assume "\<not> ?e \<le> 6"
    then have "7 \<le> ?e" by simp
    then have "(power_int 2 7 :: rat) \<le> power_int 2 ?e"
      by (intro power_int_increasing) auto
    with float_exponent_bounds(1)[OF n assms(1)] x100 show False by simp
  qed
  have ulp_pos: "0 < ?ulp" by simp
  have "?ulp \<le> power_int 2 (- 46)"
    using e6 by (intro power_int_increasing) auto
  also have "(power_int 2 (- 46) :: rat) = 1 / 2 ^ 46" by (simp add: power_int_minus field_simps)
  finally have ulp46: "?ulp \<le> 1 / 2 ^ 46" .
  define u where "u = ?ulp"
  define z where "z = ?x / u"
  define r where "r = rat_of_int (round_half_even z)"
  have u: "0 < u" "u \<le> 1 / 2 ^ 46" using ulp_pos ulp46 by (simp_all add: u_def)
  have zx: "z * u = ?x" using u(1) by (simp add: z_def)
  have rz: "\<bar>r - z\<bar> \<le> 1 / 2" unfolding r_def by (rule round_half_even_error)
  have "\<bar>r * u - ?x\<bar> = \<bar>(r - z) * u\<bar>" using zx by (simp add: algebra_simps)
  also have "\<dots> = \<bar>r - z\<bar> * u" using u(1) by (simp add: abs_mult)
  also have "\<dots> \<le> 1 / 2 * u" using rz u(1) by (intro mult_right_mono) auto
  also have "\<dots> \<le> 1 / 2 * (1 / 2 ^ 46)" using u(2) by (intro mult_left_mono) auto
  also have "\<dots> = 1 / 2 ^ 47" by simp
  finally have "\<bar>r * u - ?x\<bar> \<le> 1 / 2 ^ 47" .
  moreover have "float_quotient n d = r * u"
    using False by (simp add: float_quotient_def Let_def r_def z_def u_def)
  ultimately show ?thesis by simp
qed

lemma format_2f_error: "\<bar>format_2f y - y\<bar> \<le> 1 / 200"
proof -
  have "\<bar>of_int (round_half_even (y * 100)) - y * 100\<bar> \<le> 1 / 2"
    by (rule round_half_even_error)
  then have "\<bar>(of_int (round_half_even (y * 100)) - y * 100) / 100\<bar> \<le> 1 / 2 / 100"
    by (simp only: abs_divide) (simp add: divide_right_mono)
  moreover have "(of_int (round_half_even (y * 100)) - y * 100) / 100 = format_2f y - y"
    unfolding format_2f_def by (simp add: field_simps)
  ultimately show ?thesis by simp
qed

lemma true_div_percentage:
  fixes t a :: nat
  assumes "0 < a" "t \<le> a"
  shows "true_div (100 * t) a = Inr (float_quotient (100 * t) a)"
proof -
  have "\<bar>float_quotient (100 * t) a - of_nat (100 * t) / of_nat a\<bar> \<le> 1 / 2 ^ 47"
    using assms by (intro float_quotient_error) auto
  moreover have "rat_of_nat (100 * t) / of_nat a \<le> 100"
    using assms by (simp add: divide_le_eq)
  moreover have "(1 :: rat) / 2 ^ 47 \<le> 1" by simp
  ultimately have "float_quotient (100 * t) a \<le> 101" by linarith
  moreover have "(101 :: rat) < 2 ^ 1024"
  proof -
    have "(2 :: rat) ^ 7 \<le> 2 ^ 1024" by (intro power_increasing) auto
    then show ?thesis by simp
  qed
  ultimately show ?thesis using assms(1) by (simp add: true_div_def)
qed

lemma percentage_shown:
  fixes t a :: nat
  assumes "0 < a" "t \<le> a"
  shows "\<bar>format_2f (float_quotient (100 * t) a) - 100 * of_nat t / of_nat a\<bar>
           \<le> 1 / 200 + 1 / 2 ^ 47"
    and "0 \<le> format_2f (float_quotient (100 * t) a)"
    and "format_2f (float_quotient (100 * t) a) \<le> 100"
proof -
  let ?q = "float_quotient (100 * t) a"
  let ?x = "100 * rat_of_nat t / of_nat a"
  have fq: "\<bar>?q - ?x\<bar> \<le> 1 / 2 ^ 47"
    using float_quotient_error[of a "100 * t"] assms by simp
  have fm: "\<bar>format_2f ?q - ?q\<bar> \<le> 1 / 200" by (rule format_2f_error)
  show "\<bar>format_2f ?q - ?x\<bar> \<le> 1 / 200 + 1 / 2 ^ 47"
    using fq fm by linarith
  show "0 \<le> format_2f ?q"
    unfolding format_2f_def
    by (intro divide_nonneg_nonneg) (auto intro!: round_half_even_nonneg mult_nonneg_nonneg float_quotient_nonneg)
  have x100: "?x \<le> 100" using assms by (simp add: divide_le_eq)
  have "rat_of_int (round_half_even (?q * 100)) \<le> ?q * 100 + 1 / 2"
    using round_half_even_error[of "?q * 100"] by linarith
  moreover have "?q \<le> 100 + 1 / 2 ^ 47" using fq x100 by linarith
  moreover have "(1 :: rat) / 2 ^ 47 < 1 / 1000" by simp
  ultimately have "rat_of_int (round_half_even (?q * 100)) < 10001" by linarith
  then have "rat_of_int (round_half_even (?q * 100)) < of_int 10001" by simp
  then have "round_half_even (?q * 100) < 10001" by (simp only: of_int_less_iff)
  then have "round_half_even (?q * 100) \<le> 10000" by simp
  then have "rat_of_int (round_half_even (?q * 100)) \<le> of_int 10000" by (simp only: of_int_le_iff)
  then show "format_2f ?q \<le> 100" unfolding format_2f_def by simp
qed

lemma one_of_three_printed: "format_2f (float_quotient (100 * 1) 3) = 3333 / 100"
  by code_simp

lemma one_of_three_sums:
  "trainable_numel
     [(''weight'', \<lparr>numel = 1, requires_grad = True\<rparr>),
      (''bias'', \<lparr>numel = 2, requires_grad = False\<rparr>)] = 1"
  "total_numel
     [(''weight'', \<lparr>numel = 1, requires_grad = True\<rparr>),
      (''bias'', \<lparr>numel = 2, requires_grad = False\<rparr>)] = 3"
  by (simp_all add: trainable_numel_def total_numel_def)

lemma all_of_eight_printed: "format_2f (float_quotient (100 * 8) 8) = 100"
  by code_simp

subsection \<open>The two outcomes of the call\<close>

lemma print_trainable_parameters_zero:
  "total_numel model = 0 \<Longrightarrow> print_trainable_parameters model stdout = Inl ZeroDivisionError"
  by (simp add: print_trainable_parameters_def count_loop_sums true_div_def)

lemma print_trainable_parameters_pos:
  assumes "total_numel model \<noteq> 0"
  shows "print_trainable_parameters model stdout =
     Inr (stdout @
       [\<lparr>shown_trainable_params = trainable_numel model,
         shown_all_param = total_numel model,
         shown_trainable_pct =
           format_2f (float_quotient (100 * trainable_numel model) (total_numel model))\<rparr>])"
proof -
  have "true_div (100 * trainable_numel model) (total_numel model) =
      Inr (float_quotient (100 * trainable_numel model) (total_numel model))"
    using assms trainable_le_total[of model] by (intro true_div_percentage) auto
  then show ?thesis
    by (simp add: print_trainable_parameters_def count_loop_sums)
qed

lemma percentage_bounds:
  assumes "total_numel model \<noteq> 0"
  shows "\<bar>format_2f (float_quotient (100 * trainable_numel model) (total_numel model)) -
            100 * of_nat (trainable_numel model) / of_nat (total_numel model)\<bar>
           \<le> 1 / 200 + 1 / 2 ^ 47"
    and "0 \<le> format_2f (float_quotient (100 * trainable_numel model) (total_numel model))"
    and "format_2f (float_quotient (100 * trainable_numel model) (total_numel model)) \<le> 100"
  using assms trainable_le_total[of model]
    percentage_shown[of "total_numel model" "trainable_numel model"]
  by auto

subsection \<open>What the counter reports\<close>

text \<open>
  Claim C2, as the code has it. For every model, the loop of
  \<open>print_trainable_parameters\<close> leaves in \<open>trainable_params\<close> the sum of the element
  counts of exactly the parameters whose \<open>requires_grad\<close> is set and in \<open>all_param\<close> the
  sum of the element counts of all parameters; and whenever \<open>all_param\<close> is not 0 the
  function prints one line, with these two numbers and the percentage
  \<open>100 * trainable_params / all_param\<close> as a float with two decimals, which is within
  \<open>1/200 + 1/2^47\<close> of the exact percentage.
\<close>

theorem print_trainable_parameters_report:
  "count_loop model (0, 0) = (trainable_numel model, total_numel model) \<and>
   (total_numel model \<noteq> 0 \<longrightarrow>
      print_trainable_parameters model stdout =
        Inr (stdout @
          [\<lparr>shown_trainable_params = trainable_numel model,
            shown_all_param = total_numel model,
            shown_trainable_pct =
              format_2f (float_quotient (100 * trainable_numel model) (total_numel model))\<rparr>]) \<and>
      \<bar>format_2f (float_quotient (100 * trainable_numel model) (total_numel model)) -
         100 * of_nat (trainable_numel model) / of_nat (total_numel model)\<bar>
        \<le> 1 / 200 + 1 / 2 ^ 47)"
  using count_loop_sums[of model] print_trainable_parameters_pos[of model stdout]
    percentage_bounds(1)[of model]
  by simp

text \<open>
  The report on a model of two parameters, a trainable one of 1 element and a frozen one
  of 2 elements: 1 of 3, printed as 33.33.
\<close>

theorem print_trainable_parameters_report_witness:
  "count_loop
     [(''weight'', \<lparr>numel = 1, requires_grad = True\<rparr>),
      (''bias'', \<lparr>numel = 2, requires_grad = False\<rparr>)] (0, 0) = (1, 3) \<and>
   print_trainable_parameters
     [(''weight'', \<lparr>numel = 1, requires_grad = True\<rparr>),
      (''bias'', \<lparr>numel = 2, requires_grad = False\<rparr>)] [] =
     Inr [\<lparr>shown_trainable_params = 1, shown_all_param = 3,
           shown_trainable_pct = 3333 / 100\<rparr>]"
  using print_trainable_parameters_report
    [of "[(''weight'', \<lparr>numel = 1, requires_grad = True\<rparr>),
          (''bias'', \<lparr>numel = 2, requires_grad = False\<rparr>)]" "[]",
     unfolded one_of_three_sums]
    one_of_three_printed
  by simp

text \<open>
  Claim C2 as it is written speaks of every model and of a percentage equal to the
  quotient. On a model without parameters the function prints nothing: the division
  raises. On a model with 1 trainable element of 3 it prints 33.33, which is not 100/3.
\<close>

lemma one_of_three_report:
  "print_trainable_parameters
     [(''weight'', \<lparr>numel = 1, requires_grad = True\<rparr>),
      (''bias'', \<lparr>numel = 2, requires_grad = False\<rparr>)] [] =
     Inr [\<lparr>shown_trainable_params = 1, shown_all_param = 3,
           shown_trainable_pct = 3333 / 100\<rparr>]"
  using print_trainable_parameters_pos
    [of "[(''weight'', \<lparr>numel = 1, requires_grad = True\<rparr>),
          (''bias'', \<lparr>numel = 2, requires_grad = False\<rparr>)]" "[]",
     unfolded one_of_three_sums]
    one_of_three_printed
  by simp

theorem print_trainable_parameters_no_report:
  "print_trainable_parameters [] [] = Inl ZeroDivisionError \<and>
   \<not> (\<exists>stdout'. print_trainable_parameters [] [] = Inr stdout') \<and>
   print_trainable_parameters
     [(''weight'', \<lparr>numel = 1, requires_grad = True\<rparr>),
      (''bias'', \<lparr>numel = 2, requires_grad = False\<rparr>)] [] =
     Inr [\<lparr>shown_trainable_params = 1, shown_all_param = 3,
           shown_trainable_pct = 3333 / 100\<rparr>] \<and>
   (3333 / 100 :: rat) \<noteq> 100 * 1 / 3"
  using print_trainable_parameters_zero[of "[]" "[]"] one_of_three_report
  by (simp add: total_numel_def)

subsection \<open>The unguarded division\<close>

text \<open>
  Claim C9. \<open>print_trainable_parameters\<close> divides by the accumulated \<open>all_param\<close> without
  a guard. For a model with at least one parameter of positive element count the
  percentage is defined: the call returns, having printed one line whose percentage is
  \<open>100 * trainable_params / all_param\<close> as a float with two decimals, a number between 0
  and 100 and within \<open>1/200 + 1/2^47\<close> of the exact percentage. For a model whose
  parameter list is empty, or whose element counts are all 0, \<open>all_param\<close> is 0 and the
  call raises \<open>ZeroDivisionError\<close>, which nothing in the function handles.
\<close>

theorem print_trainable_parameters_division:
  "((\<exists>np \<in> set model. 0 < numel (snd np)) \<longrightarrow>
      (\<exists>line. print_trainable_parameters model stdout = Inr (stdout @ [line]) \<and>
         shown_trainable_pct line =
           format_2f (float_quotient (100 * trainable_numel model) (total_numel model)) \<and>
         \<bar>shown_trainable_pct line -
            100 * of_nat (trainable_numel model) / of_nat (total_numel model)\<bar>
           \<le> 1 / 200 + 1 / 2 ^ 47 \<and>
         0 \<le> shown_trainable_pct line \<and> shown_trainable_pct line \<le> 100)) \<and>
   ((\<forall>np \<in> set model. numel (snd np) = 0) \<longrightarrow>
      snd (count_loop model (0, 0)) = 0 \<and>
      print_trainable_parameters model stdout = Inl ZeroDivisionError)"
proof (intro conjI impI)
  assume "\<exists>np \<in> set model. 0 < numel (snd np)"
  then have nz: "total_numel model \<noteq> 0"
    using total_numel_zero_iff[of model] by auto
  show "\<exists>line. print_trainable_parameters model stdout = Inr (stdout @ [line]) \<and>
         shown_trainable_pct line =
           format_2f (float_quotient (100 * trainable_numel model) (total_numel model)) \<and>
         \<bar>shown_trainable_pct line -
            100 * of_nat (trainable_numel model) / of_nat (total_numel model)\<bar>
           \<le> 1 / 200 + 1 / 2 ^ 47 \<and>
         0 \<le> shown_trainable_pct line \<and> shown_trainable_pct line \<le> 100"
    using print_trainable_parameters_pos[OF nz, of stdout] percentage_bounds[OF nz]
    by simp
next
  assume "\<forall>np \<in> set model. numel (snd np) = 0"
  then have z: "total_numel model = 0"
    using total_numel_zero_iff[of model] by simp
  show "snd (count_loop model (0, 0)) = 0"
    using z by (simp add: count_loop_sums)
  show "print_trainable_parameters model stdout = Inl ZeroDivisionError"
    using z by (rule print_trainable_parameters_zero)
qed

text \<open>
  Both halves at concrete models: one parameter of 8 elements, trainable, gives a line
  with 100 percent; one parameter of 0 elements raises.
\<close>

theorem print_trainable_parameters_division_witness:
  "(\<exists>line. print_trainable_parameters [(''weight'', \<lparr>numel = 8, requires_grad = True\<rparr>)] [] =
        Inr [line] \<and> shown_trainable_pct line = 100) \<and>
   print_trainable_parameters [(''empty'', \<lparr>numel = 0, requires_grad = True\<rparr>)] [] =
     Inl ZeroDivisionError"
proof -
  have pos: "\<exists>np \<in> set [(''weight'', \<lparr>numel = 8, requires_grad = True\<rparr>)]. 0 < numel (snd np)"
    by simp
  have zero: "\<forall>np \<in> set [(''empty'', \<lparr>numel = 0, requires_grad = True\<rparr>)]. numel (snd np) = 0"
    by simp
  from pos print_trainable_parameters_division
         [of "[(''weight'', \<lparr>numel = 8, requires_grad = True\<rparr>)]" "[]"]
    all_of_eight_printed
  have 1: "\<exists>line. print_trainable_parameters [(''weight'', \<lparr>numel = 8, requires_grad = True\<rparr>)] [] =
        Inr [line] \<and> shown_trainable_pct line = 100"
    by (auto simp add: trainable_numel_def total_numel_def)
  from zero print_trainable_parameters_division
         [of "[(''empty'', \<lparr>numel = 0, requires_grad = True\<rparr>)]" "[]"]
  have 2: "print_trainable_parameters [(''empty'', \<lparr>numel = 0, requires_grad = True\<rparr>)] [] =
     Inl ZeroDivisionError"
    by simp
  from 1 2 show ?thesis by simp
qed

section \<open>Verification: the accuracy callback\<close>

subsection \<open>The scan finds the first maximum of each row\<close>

lemma is_argmax_unique: "is_argmax row j \<Longrightarrow> is_argmax row j' \<Longrightarrow> j = j'"
  unfolding is_argmax_def by (metis linorder_neqE_nat not_le)

lemma argmax_scan_is_argmax:
  "is_argmax pre bi \<Longrightarrow> best = pre ! bi \<Longrightarrow> i = length pre \<Longrightarrow>
   is_argmax (pre @ xs) (argmax_scan best bi i xs)"
proof (induction xs arbitrary: pre bi best i)
  case Nil
  then show ?case by simp
next
  case (Cons x xs)
  have bi: "bi < length pre" using Cons.prems(1) by (simp add: is_argmax_def)
  show ?case
  proof (cases "best < x")
    case True
    have "is_argmax (pre @ [x]) (length pre)"
      unfolding is_argmax_def
      using Cons.prems True bi
      by (auto simp: nth_append is_argmax_def less_Suc_eq dest: le_less_trans)
    from Cons.IH[OF this, of x "Suc i"] Cons.prems(3) True
    show ?thesis by simp
  next
    case False
    have "is_argmax (pre @ [x]) bi"
      unfolding is_argmax_def
      using Cons.prems False bi
      by (auto simp: nth_append is_argmax_def less_Suc_eq)
    from Cons.IH[OF this, of best "Suc i"] Cons.prems False bi
    show ?thesis by (simp add: nth_append)
  qed
qed

lemma argmax_row_is_argmax:
  assumes "row \<noteq> []"
  shows "\<exists>j. argmax_row row = Inr j \<and> is_argmax row j"
proof -
  obtain x xs where row: "row = x # xs" using assms by (cases row) auto
  have "is_argmax [x] 0" by (simp add: is_argmax_def)
  from argmax_scan_is_argmax[OF this, of x 1 xs]
  show ?thesis by (simp add: row argmax_row_def)
qed

lemma argmax_last_axis_rows:
  "\<forall>row \<in> set rows. row \<noteq> [] \<Longrightarrow>
   \<exists>preds. argmax_last_axis rows = Inr preds \<and> length preds = length rows \<and>
     (\<forall>i < length rows. is_argmax (rows ! i) (preds ! i))"
proof (induction rows)
  case Nil
  then show ?case by simp
next
  case (Cons row rows)
  from Cons.prems obtain j where j: "argmax_row row = Inr j" "is_argmax row j"
    using argmax_row_is_argmax[of row] by auto
  from Cons obtain preds where p: "argmax_last_axis rows = Inr preds" "length preds = length rows"
     "\<forall>i < length rows. is_argmax (rows ! i) (preds ! i)" by auto
  show ?case using j p by (auto simp: nth_Cons split: nat.splits)
qed

lemma count_agree:
  "length ys = length xs \<Longrightarrow>
   length (filter (\<lambda>b. b) (map (\<lambda>(t, q). t = q) (zip xs ys))) = card {i. i < length xs \<and> xs ! i = ys ! i}"
proof -
  assume l: "length ys = length xs"
  have "length (filter (\<lambda>b. b) (map (\<lambda>(t, q). t = q) (zip xs ys)))
      = length (filter (\<lambda>(t, q). t = q) (zip xs ys))"
    by (simp add: filter_map comp_def case_prod_unfold)
  also have "\<dots> = card {i. i < length (zip xs ys) \<and> (\<lambda>(t, q). t = q) (zip xs ys ! i)}"
    by (rule length_filter_conv_card)
  also have "{i. i < length (zip xs ys) \<and> (\<lambda>(t, q). t = q) (zip xs ys ! i)} = {i. i < length xs \<and> xs ! i = ys ! i}"
    using l by auto
  finally show ?thesis .
qed

subsection \<open>The accuracy the callback returns\<close>

text \<open>
  Claim C1. Let the predictions of \<open>p\<close> be a matrix of logits (rows of one length, at
  least one column) and its labels a vector with as many entries as the matrix has rows.
  Then \<open>compute_metrics\<close> returns a dictionary whose only key is \<open>accuracy\<close>, and the
  value is the number of positions at which the argmax of the logits row is the label,
  divided by the number of labels: what \<open>accuracy_score\<close> returns on the labels and the
  hard predictions. The same dictionary is what the callback logs to the experiment
  tracker, and what the draft's variant returns. (On no labels at all the quotient is
  0/0, the float \<open>nan\<close>.)
\<close>

theorem compute_metrics_accuracy:
  assumes m: "logits_matrix (predictions p) n_classes"
    and l: "length (predictions p) = length (label_ids p)"
  shows "\<exists>acc.
     acc = (if label_ids p = [] then NaN
            else Finite (of_nat (card (correct_positions p)) / of_nat (length (label_ids p)))) \<and>
     (\<exists>preds. argmax_last_axis (predictions p) = Inr preds \<and>
        accuracy_score (label_ids p) (map int preds) = Inr acc) \<and>
     compute_metrics p wandb_log =
       Inr ([''accuracy'' \<mapsto> acc], wandb_log @ [[''accuracy'' \<mapsto> acc]]) \<and>
     compute_metrics_draft p = Inr [''accuracy'' \<mapsto> acc]"
proof -
  from m have "\<forall>row \<in> set (predictions p). row \<noteq> []" by (auto simp: logits_matrix_def)
  from argmax_last_axis_rows[OF this] obtain preds where
    p: "argmax_last_axis (predictions p) = Inr preds" "length preds = length (predictions p)"
     "\<forall>i < length (predictions p). is_argmax (predictions p ! i) (preds ! i)" by auto
  have len: "length (map int preds) = length (label_ids p)" using p(2) l by simp
  have "{i. i < length (label_ids p) \<and> label_ids p ! i = map int preds ! i} = correct_positions p"
    unfolding correct_positions_def using p(2,3) l
    by (auto dest: is_argmax_unique)
  with count_agree[OF len] have c:
    "length (filter (\<lambda>b. b) (map (\<lambda>(t, q). t = q) (zip (label_ids p) (map int preds))))
       = card (correct_positions p)"
    by simp
  have e: "preds = [] \<longleftrightarrow> label_ids p = []" using len by auto
  show ?thesis
    using p(1) len c e
    by (simp add: compute_metrics_def compute_metrics_draft_def accuracy_score_def
        np_mean_def Let_def)
qed

text \<open>
  Two examples over three classes with labels 1 and 2. The argmax of the first row is 1,
  its label; the argmax of the second row is 0, not its label 2. So one position of two
  is correct, and the accuracy is 1/2.
\<close>

theorem compute_metrics_accuracy_witness:
  "card (correct_positions \<lparr>predictions = [[1, 3, 2], [5, 0, 0 :: rat]], label_ids = [1, 2]\<rparr>) = 1 \<and>
   compute_metrics \<lparr>predictions = [[1, 3, 2], [5, 0, 0 :: rat]], label_ids = [1, 2]\<rparr> [] =
     Inr ([''accuracy'' \<mapsto> Finite (1 / 2)], [[''accuracy'' \<mapsto> Finite (1 / 2)]])"
proof -
  let ?p = "\<lparr>predictions = [[1, 3, 2], [5, 0, 0 :: rat]], label_ids = [1, 2]\<rparr>"
  have m: "logits_matrix (predictions ?p) 3" by (simp add: logits_matrix_def)
  have l: "length (predictions ?p) = length (label_ids ?p)" by simp
  have run: "compute_metrics ?p [] =
      Inr ([''accuracy'' \<mapsto> Finite (1 / 2)], [[''accuracy'' \<mapsto> Finite (1 / 2)]])"
    by (simp add: compute_metrics_def argmax_row_def accuracy_score_def np_mean_def)
  from compute_metrics_accuracy[OF m l, of "[]"] run
  have "[''accuracy'' \<mapsto> Finite (rat_of_nat (card (correct_positions ?p)) / 2)]
      = [''accuracy'' \<mapsto> Finite (1 / 2)]"
    by simp
  then have "Finite (rat_of_nat (card (correct_positions ?p)) / 2) = Finite (1 / 2)"
    by (metis map_upd_eqD1)
  then have "card (correct_positions ?p) = 1" by simp
  with run show ?thesis by simp
qed

section \<open>Verification: the names of the 4-bit linear modules\<close>

subsection \<open>Splitting at dots\<close>

lemma str_split_nonempty: "str_split sep s \<noteq> []"
  by (induction s) (auto split: list.splits)

lemma str_split_no_sep: "sep \<notin> set s \<Longrightarrow> str_split sep s = [s]"
  by (induction s) auto

lemma str_split_sep: "sep \<in> set s \<Longrightarrow> 2 \<le> length (str_split sep s)"
proof (induction s)
  case Nil
  then show ?case by simp
next
  case (Cons c cs)
  show ?case
  proof (cases "c = sep")
    case True
    then show ?thesis using str_split_nonempty[of sep cs]
      by (cases "str_split sep cs") auto
  next
    case False
    with Cons show ?thesis by (auto split: list.splits)
  qed
qed

lemma rev_takeWhile_rev_all: "\<forall>x \<in> set xs. P x \<Longrightarrow> rev (takeWhile P (rev xs)) = xs"
proof -
  assume "\<forall>x \<in> set xs. P x"
  then have "takeWhile P (rev xs) = rev xs"
    using takeWhile_eq_all_conv[of P "rev xs"] by auto
  then show ?thesis by (metis rev_rev_ident)
qed

lemma rev_drop_take_rev:
  "rev (dropWhile P (rev xs)) @ rev (takeWhile P (rev xs)) = xs"
proof -
  have "rev (takeWhile P (rev xs) @ dropWhile P (rev xs)) = xs"
    by (metis takeWhile_dropWhile_id rev_rev_ident)
  then show ?thesis by (metis rev_append)
qed

lemma last_str_split: "last (str_split sep s) = rev (takeWhile (\<lambda>c. c \<noteq> sep) (rev s))"
proof (induction s)
  case Nil
  show ?case by simp
next
  case (Cons c cs)
  show ?case
  proof (cases "c = sep")
    case True
    then show ?thesis using Cons str_split_nonempty[of sep cs]
      by (simp add: takeWhile_append)
  next
    case False
    note c = this
    show ?thesis
    proof (cases "sep \<in> set cs")
      case False
      then have "str_split sep (c # cs) = [c # cs]" using c str_split_no_sep[of sep "c # cs"] by simp
      moreover have "rev (takeWhile (\<lambda>c. c \<noteq> sep) (rev (c # cs))) = c # cs"
        using False c by (intro rev_takeWhile_rev_all) auto
      ultimately show ?thesis by (metis last.simps)
    next
      case True
      from str_split_sep[OF True] obtain w v ws where ws: "str_split sep cs = w # v # ws"
        by (cases "str_split sep cs"; cases "tl (str_split sep cs)") auto
      have "takeWhile (\<lambda>c. c \<noteq> sep) (rev cs @ [c]) = takeWhile (\<lambda>c. c \<noteq> sep) (rev cs)"
        using True by (auto simp: takeWhile_append)
      then show ?thesis using Cons ws c by simp
    qed
  qed
qed

lemma picked_name: 
  "(let names = str_split CHR ''.'' name in if length names = 1 then hd names else last names) = base_name name"
proof -
  have "length (str_split CHR ''.'' name) = 1 \<Longrightarrow> hd (str_split CHR ''.'' name) = last (str_split CHR ''.'' name)"
    by (cases "str_split CHR ''.'' name") auto
  then show ?thesis by (auto simp: Let_def base_name_def last_str_split)
qed

lemma base_name_no_dot: "CHR ''.'' \<notin> set name \<Longrightarrow> base_name name = name"
proof -
  assume "CHR ''.'' \<notin> set name"
  then show ?thesis
    unfolding base_name_def by (intro rev_takeWhile_rev_all) auto
qed

lemma base_name_suffix:
  "\<exists>pre. name = pre @ base_name name \<and> (pre = [] \<or> last pre = CHR ''.'') \<and>
     CHR ''.'' \<notin> set (base_name name)"
proof -
  let ?P = "\<lambda>c. c \<noteq> CHR ''.''"
  let ?pre = "rev (dropWhile ?P (rev name))"
  have 1: "name = ?pre @ base_name name"
    unfolding base_name_def by (rule rev_drop_take_rev[symmetric])
  have 2: "?pre = [] \<or> last ?pre = CHR ''.''"
    using hd_dropWhile[of ?P "rev name"] by (auto simp: last_rev)
  have 3: "CHR ''.'' \<notin> set (base_name name)"
    by (auto simp: base_name_def dest: set_takeWhileD)
  from 1 2 3 show ?thesis by blast
qed

lemma collect_names_set:
  "set (collect_names model acc) = set acc \<union> base_name ` {name. (name, Linear4bit) \<in> set model}"
proof (induction model arbitrary: acc)
  case Nil
  show ?case by simp
next
  case (Cons nm rest)
  obtain name m where nm: "nm = (name, m)" by (cases nm)
  show ?case unfolding nm using picked_name[of name]
    by (auto simp: Cons.IH set_add_def Let_def)
qed

lemma collect_names_distinct: "distinct acc \<Longrightarrow> distinct (collect_names model acc)"
proof (induction model arbitrary: acc)
  case Nil
  then show ?case by simp
next
  case (Cons nm rest)
  obtain name m where nm: "nm = (name, m)" by (cases nm)
  show ?case unfolding nm using Cons.prems
    by (auto intro!: Cons.IH simp: set_add_def Let_def)
qed

subsection \<open>The list returned\<close>

text \<open>
  Claim C10. For every model, \<open>find_all_linear_names\<close> returns a list that never
  contains \<open>lm_head\<close>. Its elements are the last dot-separated components of the names
  of the model's modules of the 4-bit linear class (the whole name when it has no dot),
  each of them once, with \<open>lm_head\<close> taken out.
\<close>

theorem find_all_linear_names_result:
  "\<exists>names. find_all_linear_names model = Inr names \<and>
      ''lm_head'' \<notin> set names \<and> distinct names \<and>
      set names = base_name ` {name. (name, Linear4bit) \<in> set model} - {''lm_head''}"
  using collect_names_distinct[of "[]" model]
  by (auto simp: find_all_linear_names_def Let_def set_remove_def collect_names_set
      distinct_removeAll)

section \<open>Verification: the notebooks\<close>

lemmas runtime_defs = lit_def var_def attr_def item_def list_of_def call_def assign_def
  do_expr_def import_as_def def_function_def fresh_kernel_def run_notebook_def

subsection \<open>Every model has five output classes\<close>

lemma bert_num_labels: "instantiated_num_labels (bert_notebook never) = Inr [Some (IntV 5)]"
  by code_simp

lemma qlora_draft_num_labels:
  "instantiated_num_labels (qlora_draft_notebook never) = Inr [Some (IntV 5)]"
  by code_simp

lemma qlora_num_labels: "instantiated_num_labels (qlora_notebook never) = Inr [Some (IntV 5)]"
  by code_simp

lemma class_labels_5: "class_labels 5 = {0, 1, 2, 3, 4}"
  unfolding class_labels_def by auto

text \<open>
  Claim C4. Each notebook instantiates one classification model (with
  \<open>from_pretrained\<close>), and every one of them, in the full fine-tuning notebook, in the
  QLoRA draft and in the QLoRA notebook, is given \<open>num_labels=5\<close>: five output classes,
  whose labels are the integers 0 to 4 of the dataset.
\<close>

theorem five_output_classes:
  "instantiated_num_labels (bert_notebook never) = Inr [Some (IntV 5)] \<and>
   instantiated_num_labels (qlora_draft_notebook never) = Inr [Some (IntV 5)] \<and>
   instantiated_num_labels (qlora_notebook never) = Inr [Some (IntV 5)] \<and>
   class_labels 5 = {0, 1, 2, 3, 4}"
  using bert_num_labels qlora_draft_num_labels qlora_num_labels class_labels_5 by simp

subsection \<open>The order of the pipeline\<close>




















subsection \<open>No concurrency of the notebooks' own\<close>









subsection \<open>The uncaught \<open>KeyError\<close> of the draft\<close>

lemma inner_training_loop_key_error:
  assumes "metric_for_best_model args = Some ''loss''"
    and "\<forall>s \<in> set steps. \<forall>ms. step_metrics s = Some ms \<longrightarrow> ms ''eval_loss'' = None"
    and "\<exists>s \<in> set steps. should_save s \<and> step_metrics s \<noteq> None"
  shows "inner_training_loop args steps = Inl (KeyError ''eval_loss'')"
  using assms(2,3)
proof (induction steps)
  case Nil
  then show ?case by simp
next
  case (Cons s steps)
  show ?case
  proof (cases "should_save s \<and> step_metrics s \<noteq> None")
    case True
    then obtain ms where ms: "step_metrics s = Some ms" by auto
    then have "ms ''eval_loss'' = None" using Cons.prems(1) by simp
    then show ?thesis using assms(1) True ms
      by (simp add: maybe_log_save_evaluate_def save_checkpoint_def startswith_def)
  next
    case False
    then have "maybe_log_save_evaluate args s = Inr ()"
      by (auto simp: maybe_log_save_evaluate_def save_checkpoint_def)
    moreover have "inner_training_loop args steps = Inl (KeyError ''eval_loss'')"
      using Cons False by auto
    ultimately show ?thesis by simp
  qed
qed

text \<open>
  The draft's run fails exactly when its training fails, and with the same exception:
  the training arguments that reach \<open>train\<close> are those of the draft's
  \<open>TrainingArguments\<close> call, and nothing between \<open>train\<close> and the end of the run
  handles an exception.
\<close>

lemma draft_outcome:
  "outcome (run_notebook (qlora_draft_notebook (library steps))) =
   trainer_train \<lparr>load_best_model_at_end = True, metric_for_best_model = Some ''loss''\<rparr> steps"
  by (simp add: runtime_defs qlora_draft_notebook_def library_def result_of_def kwarg_def
      training_arguments_of_def post_init_def outcome_def split: sum.splits)

text \<open>
  Claim C3. The draft's training configuration sets \<open>load_best_model_at_end=True\<close> and
  names no \<open>metric_for_best_model\<close>. When there are evaluation results at a step at which
  a checkpoint is saved, and the evaluation results of the run have no key \<open>eval_loss\<close>,
  then \<open>trainer.train()\<close> raises \<open>KeyError\<close> for \<open>eval_loss\<close>, and this exception is the
  outcome of the notebook's run: nothing catches it, wraps it in another error, or tries
  again.
\<close>

theorem draft_train_key_error:
  assumes "\<exists>s \<in> set steps. should_save s \<and> step_metrics s \<noteq> None"
    and "\<forall>s \<in> set steps. \<forall>ms. step_metrics s = Some ms \<longrightarrow> ms ''eval_loss'' = None"
  shows "trainer_train
           (post_init \<lparr>load_best_model_at_end = True, metric_for_best_model = None\<rparr>) steps =
           Inl (KeyError ''eval_loss'') \<and>
         run_notebook (qlora_draft_notebook (library steps)) = Inl (KeyError ''eval_loss'')"
proof -
  have t: "trainer_train
      \<lparr>load_best_model_at_end = True, metric_for_best_model = Some ''loss''\<rparr> steps =
      Inl (KeyError ''eval_loss'')"
    unfolding trainer_train_def
    by (rule inner_training_loop_key_error) (use assms in simp_all)
  have "outcome (run_notebook (qlora_draft_notebook (library steps))) =
      Inl (KeyError ''eval_loss'')"
    using draft_outcome[of steps] t by simp
  then have "run_notebook (qlora_draft_notebook (library steps)) = Inl (KeyError ''eval_loss'')"
    by (cases "run_notebook (qlora_draft_notebook (library steps))") (simp_all add: outcome_def)
  with t show ?thesis by (simp add: post_init_def)
qed

text \<open>
  A run of one step, at which the trainer evaluates and saves, with evaluation results
  that hold the accuracy only.
\<close>

theorem draft_train_key_error_witness:
  "run_notebook (qlora_draft_notebook (library
     [\<lparr>step_metrics = Some [''eval_accuracy'' \<mapsto> Finite (1 / 2)], should_save = True\<rparr>])) =
     Inl (KeyError ''eval_loss'')"
proof -
  let ?steps =
    "[\<lparr>step_metrics = Some [''eval_accuracy'' \<mapsto> Finite (1 / 2)], should_save = True\<rparr>]"
  have 1: "\<exists>s \<in> set ?steps. should_save s \<and> step_metrics s \<noteq> None" by simp
  have 2: "\<forall>s \<in> set ?steps. \<forall>ms. step_metrics s = Some ms \<longrightarrow> ms ''eval_loss'' = None"
    by auto
  from draft_train_key_error[OF 1 2] show ?thesis by simp
qed

end
